theory Spec2Isabelle
  imports Main
begin

section \<open>Python values\<close>

text \<open>
  The screening pipeline passes around untyped Python objects: the JSON a model
  answered (parsed by \<open>json.loads\<close>), the result dictionaries the screeners build
  from it, and the cells of the pandas dataframes that are read from and written to
  CSV files.  One datatype covers them.  \<open>PNaN\<close> is the float \<open>nan\<close> that
  pandas puts into every empty CSV field; other floating-point numbers are not
  represented, since none of the modelled code computes with them.  A dictionary is
  an association list in insertion order whose first binding of a key is the one
  that counts.
\<close>

datatype pyval =
    PNone
  | PBool bool
  | PInt int
  | PNaN
  | PStr string
  | PList "pyval list"
  | PDict "(string \<times> pyval) list"

type_synonym pydict = "(string \<times> pyval) list"

text \<open>An exception: its class and the text \<open>str(e)\<close> gives.\<close>

datatype exn = Exn (exn_class: string) (exn_str: string)

lemma size_list_member:
  "(z::pyval) \<in> set xs \<Longrightarrow> size z < Suc (size_list size xs)"
  by (induction xs) auto

lemma size_dict_member:
  "(k, x::pyval) \<in> set xs \<Longrightarrow> size x < Suc (size_list (size_prod (\<lambda>x. 0) size) xs)"
  by (induction xs) auto

lemma size_map_of:
  "map_of xs k = Some (x::pyval) \<Longrightarrow> size x < Suc (size_list (size_prod (\<lambda>x. 0) size) xs)"
  by (rule size_dict_member) (erule map_of_SomeD)

subsection \<open>Equality (\<open>==\<close>)\<close>

text \<open>
  Python compares \<open>True\<close> and \<open>1\<close> as equal, a \<open>nan\<close> with nothing, lists
  element by element and dictionaries key by key, whatever the order of the keys.
\<close>

fun py_num :: "pyval \<Rightarrow> int option" where
  "py_num (PBool b) = Some (if b then 1 else 0)"
| "py_num (PInt i) = Some i"
| "py_num _ = None"

function py_eq :: "pyval \<Rightarrow> pyval \<Rightarrow> bool" where
  "py_eq PNone v = (v = PNone)"
| "py_eq PNaN v = False"
| "py_eq (PStr s) v = (v = PStr s)"
| "py_eq (PBool b) v = (py_num v = Some (if b then 1 else 0))"
| "py_eq (PInt i) v = (py_num v = Some i)"
| "py_eq (PList xs) v = (case v of PList ys \<Rightarrow> list_all2 py_eq xs ys | _ \<Rightarrow> False)"
| "py_eq (PDict xs) v =
     (case v of
        PDict ys \<Rightarrow>
          list_all (\<lambda>k. map_of xs k \<noteq> None) (map fst ys) \<and>
          list_all
            (\<lambda>k. case map_of xs k of
                   None \<Rightarrow> False
                 | Some x \<Rightarrow> (case map_of ys k of None \<Rightarrow> False | Some y \<Rightarrow> py_eq x y))
            (map fst xs)
      | _ \<Rightarrow> False)"
  by pat_completeness auto
termination
  by (relation "measure (\<lambda>(a, b). size a)") (auto simp: size_list_member size_map_of)

subsection \<open>Truth value, \<open>str\<close> and \<open>repr\<close>\<close>

fun py_truthy :: "pyval \<Rightarrow> bool" where
  "py_truthy PNone = False"
| "py_truthy (PBool b) = b"
| "py_truthy (PInt i) = (i \<noteq> 0)"
| "py_truthy PNaN = True"
| "py_truthy (PStr s) = (s \<noteq> [])"
| "py_truthy (PList xs) = (xs \<noteq> [])"
| "py_truthy (PDict kvs) = (kvs \<noteq> [])"

fun py_type_name :: "pyval \<Rightarrow> string" where
  "py_type_name PNone = ''NoneType''"
| "py_type_name (PBool b) = ''bool''"
| "py_type_name (PInt i) = ''int''"
| "py_type_name PNaN = ''float''"
| "py_type_name (PStr s) = ''str''"
| "py_type_name (PList xs) = ''list''"
| "py_type_name (PDict kvs) = ''dict''"

fun string_of_nat :: "nat \<Rightarrow> string" where
  "string_of_nat n =
     (if n < 10 then [''0123456789'' ! n]
      else string_of_nat (n div 10) @ [''0123456789'' ! (n mod 10)])"

definition string_of_int :: "int \<Rightarrow> string" where
  "string_of_int i = (if i < 0 then CHR ''-'' # string_of_nat (nat (- i)) else string_of_nat (nat i))"

text \<open>\<open>sep.join(parts)\<close> on strings.\<close>

fun join :: "string \<Rightarrow> string list \<Rightarrow> string" where
  "join sep [] = []"
| "join sep [x] = x"
| "join sep (x # y # ys) = x @ sep @ join sep (y # ys)"

text \<open>
  \<open>repr\<close> of a string: single quotes, unless the string holds a single quote and no
  double quote; the backslash, the quote in use, newline, carriage return and tab are
  escaped.  (Other control characters and non-ASCII text, which CPython escapes or
  prints by its own tables, are left as they are.)
\<close>

definition repr_char :: "char \<Rightarrow> char \<Rightarrow> string" where
  "repr_char q c =
     (if c = CHR 0x5C then [CHR 0x5C, CHR 0x5C]
      else if c = q then [CHR 0x5C, q]
      else if c = CHR 0x0A then [CHR 0x5C, CHR ''n'']
      else if c = CHR 0x0D then [CHR 0x5C, CHR ''r'']
      else if c = CHR 0x09 then [CHR 0x5C, CHR ''t'']
      else [c])"

definition repr_str :: "string \<Rightarrow> string" where
  "repr_str s =
     (let q = (if CHR 0x27 \<in> set s \<and> CHR 0x22 \<notin> set s then CHR 0x22 else CHR 0x27)
      in q # concat (map (repr_char q) s) @ [q])"

function py_repr :: "pyval \<Rightarrow> string" where
  "py_repr PNone = ''None''"
| "py_repr (PBool b) = (if b then ''True'' else ''False'')"
| "py_repr (PInt i) = string_of_int i"
| "py_repr PNaN = ''nan''"
| "py_repr (PStr s) = repr_str s"
| "py_repr (PList xs) = ''['' @ join '', '' (map py_repr xs) @ '']''"
| "py_repr (PDict kvs) =
     ''{'' @ join '', '' (map (\<lambda>kv. repr_str (fst kv) @ '': '' @ py_repr (snd kv)) kvs) @ ''}''"
  by pat_completeness auto
termination
  by (relation "measure size") (auto simp: size_list_member size_dict_member)

definition py_str :: "pyval \<Rightarrow> string" where
  "py_str v = (case v of PStr s \<Rightarrow> s | _ \<Rightarrow> py_repr v)"

subsection \<open>Dictionaries\<close>

text \<open>
  \<open>d.get(k, default)\<close>, \<open>d[k]\<close> (a \<open>KeyError\<close> on a missing key), \<open>k in d\<close> and
  \<open>d[k] = v\<close>, which replaces the value of a key that is there and appends a new key
  at the end.
\<close>

definition dict_get :: "pydict \<Rightarrow> string \<Rightarrow> pyval \<Rightarrow> pyval" where
  "dict_get d k dflt = (case map_of d k of Some v \<Rightarrow> v | None \<Rightarrow> dflt)"

definition dict_index :: "pydict \<Rightarrow> string \<Rightarrow> exn + pyval" where
  "dict_index d k =
     (case map_of d k of Some v \<Rightarrow> Inr v | None \<Rightarrow> Inl (Exn ''KeyError'' (repr_str k)))"


definition dict_has :: "pydict \<Rightarrow> string \<Rightarrow> bool" where
  "dict_has d k = (map_of d k \<noteq> None)"

fun dict_set :: "pydict \<Rightarrow> string \<Rightarrow> pyval \<Rightarrow> pydict" where
  "dict_set [] k v = [(k, v)]"
| "dict_set (p # ps) k v = (if fst p = k then (k, v) # ps else p # dict_set ps k v)"

text \<open>
  The method call \<open>x.get(k, default)\<close> on an arbitrary object: only a dictionary has
  the method.
\<close>

definition py_get :: "pyval \<Rightarrow> string \<Rightarrow> pyval \<Rightarrow> exn + pyval" where
  "py_get x k dflt =
     (case x of
        PDict d \<Rightarrow> Inr (dict_get d k dflt)
      | _ \<Rightarrow> Inl (Exn ''AttributeError''
                 ([CHR 0x27] @ py_type_name x @ '' object has no attribute '' @ repr_str ''get'')))"

section \<open>Merge stage: the decision table (04_merge_results.py)\<close>

text \<open>
  A row of the dataframe read from the Layer 2 output CSV is a dictionary from column
  names to cells; \<open>row.get(c)\<close> is the cell, or \<open>None\<close> when the dataframe has no
  column \<open>c\<close>.
\<close>

definition determine_final_decision :: "pydict \<Rightarrow> pydict" where
  "determine_final_decision row =
     (let result = [(''auto_decision'', PNone),
                    (''review_priority'', PStr ''none''),
                    (''review_reason'', PNone)]
      in if py_eq (dict_get row ''L1_decision'' PNone) (PStr ''exclude'') then
           dict_set (dict_set result ''auto_decision'' (PStr ''exclude''))
             ''review_priority'' (PStr ''none'')
         else
           let pro_decision = dict_get row ''L2_pro_decision'' PNone;
               opus_decision = dict_get row ''L2_opus_decision'' PNone
           in if py_eq pro_decision opus_decision then
                if py_eq pro_decision (PStr ''include'') then
                  dict_set (dict_set (dict_set result
                    ''auto_decision'' (PStr ''include''))
                    ''review_priority'' (PStr ''high''))
                    ''review_reason'' (PStr ''Both models include - verify'')
                else
                  dict_set (dict_set (dict_set result
                    ''auto_decision'' (PStr ''exclude''))
                    ''review_priority'' (PStr ''low''))
                    ''review_reason'' (PStr ''Both models exclude'')
              else
                dict_set (dict_set (dict_set result
                  ''auto_decision'' (PStr ''uncertain''))
                  ''review_priority'' (PStr ''high''))
                  ''review_reason''
                    (PStr (''Disagreement: Pro='' @ py_str pro_decision
                           @ '', Opus='' @ py_str opus_decision)))"

section \<open>Layer 2: the judges' results (03_layer2_inclusion.py)\<close>

text \<open>Sequencing of steps that may raise: the first exception ends the computation.\<close>

definition exn_bind :: "exn + 'a \<Rightarrow> ('a \<Rightarrow> exn + 'b) \<Rightarrow> exn + 'b" where
  "exn_bind m f = (case m of Inl e \<Rightarrow> Inl e | Inr v \<Rightarrow> f v)"

text \<open>\<open>s.lower()\<close> on ASCII letters and \<open>s.replace(c, new)\<close> for a one-character \<open>c\<close>.\<close>

definition lower_char :: "char \<Rightarrow> char" where
  "lower_char c =
     (case map_of (zip ''ABCDEFGHIJKLMNOPQRSTUVWXYZ'' ''abcdefghijklmnopqrstuvwxyz'') c of
        Some l \<Rightarrow> l
      | None \<Rightarrow> c)"

definition lower :: "string \<Rightarrow> string" where
  "lower s = map lower_char s"

definition replace_char :: "char \<Rightarrow> string \<Rightarrow> string \<Rightarrow> string" where
  "replace_char c new s = concat (map (\<lambda>x. if x = c then new else [x]) s)"

text \<open>
  The five inclusion criteria: the keys of \<open>config.INCLUSION_TAGS\<close>, in the order of
  the dictionary; \<open>extract_inclusion_result\<close> and \<open>flatten_result\<close> write the same
  list out.
\<close>

definition INCLUSION_TAGS :: "string list" where
  "INCLUSION_TAGS = [''INC-1'', ''INC-2'', ''INC-3'', ''INC-4'', ''INC-5'']"

text \<open>
  \<open>extract_inclusion_result\<close>: the loop over the tags, then the function.  The
  argument is whatever \<open>parse_json_response\<close> returned; on anything but a
  dictionary the first \<open>parsed.get\<close> raises.
\<close>

fun extract_tags :: "pyval \<Rightarrow> string list \<Rightarrow> pydict \<Rightarrow> exn + pydict" where
  "extract_tags inc_check [] checks = Inr checks"
| "extract_tags inc_check (tag # tags) checks =
     exn_bind (py_get inc_check tag (PDict [])) (\<lambda>tag_data.
     exn_bind (py_get tag_data ''status'' (PStr ''unclear'')) (\<lambda>status.
     exn_bind (py_get tag_data ''evidence'' PNone) (\<lambda>evidence.
       extract_tags inc_check tags
         (dict_set checks tag (PDict [(''status'', status), (''evidence'', evidence)])))))"

definition extract_inclusion_result :: "pyval \<Rightarrow> exn + pydict" where
  "extract_inclusion_result parsed =
     exn_bind (py_get parsed ''decision'' (PStr ''include'')) (\<lambda>decision.
     exn_bind (py_get parsed ''confidence'' (PStr ''low'')) (\<lambda>confidence.
     exn_bind (py_get parsed ''reasoning'' PNone) (\<lambda>reasoning.
     exn_bind (py_get parsed ''inclusion_check'' (PDict [])) (\<lambda>inc_check.
     exn_bind (extract_tags inc_check
                 [''INC-1'', ''INC-2'', ''INC-3'', ''INC-4'', ''INC-5''] []) (\<lambda>checks.
       Inr [(''decision'', decision),
            (''confidence'', confidence),
            (''reasoning'', reasoning),
            (''inclusion_check'', PDict checks),
            (''error'', PNone)])))))"

text \<open>\<open>flatten_result\<close>: the loop over the tags, then the function.\<close>

fun flatten_tags :: "pydict \<Rightarrow> string \<Rightarrow> string list \<Rightarrow> pydict \<Rightarrow> exn + pydict" where
  "flatten_tags result prefix [] flat = Inr flat"
| "flatten_tags result prefix (tag # tags) flat =
     (let tag_key = replace_char (CHR ''-'') [] (lower tag)
      in exn_bind (dict_index result ''inclusion_check'') (\<lambda>inc.
         exn_bind (py_get inc tag (PDict [])) (\<lambda>inc_data.
         exn_bind (py_get inc_data ''status'' (PStr ''unclear'')) (\<lambda>status.
         exn_bind (py_get inc_data ''evidence'' PNone) (\<lambda>evidence.
           flatten_tags result prefix tags
             (dict_set (dict_set flat
                (prefix @ ''_'' @ tag_key @ ''_status'') status)
                (prefix @ ''_'' @ tag_key @ ''_evidence'') evidence))))))"

definition flatten_result :: "pydict \<Rightarrow> string \<Rightarrow> exn + pydict" where
  "flatten_result result prefix =
     exn_bind (dict_index result ''decision'') (\<lambda>decision.
     exn_bind (dict_index result ''confidence'') (\<lambda>confidence.
     exn_bind (dict_index result ''reasoning'') (\<lambda>reasoning.
       flatten_tags result prefix [''INC-1'', ''INC-2'', ''INC-3'', ''INC-4'', ''INC-5'']
         [(prefix @ ''_decision'', decision),
          (prefix @ ''_confidence'', confidence),
          (prefix @ ''_reasoning'', reasoning),
          (prefix @ ''_error'', dict_get result ''error'' PNone),
          (prefix @ ''_input_tokens'', dict_get result ''input_tokens'' (PInt 0)),
          (prefix @ ''_output_tokens'', dict_get result ''output_tokens'' (PInt 0)),
          (prefix @ ''_total_tokens'', dict_get result ''total_tokens'' (PInt 0))])))"

section \<open>The screeners: vendor calls with retries\<close>

text \<open>
  What one attempt of a screener meets.  \<open>Raises msg\<close>: the vendor call, or reading
  the response or logging its token counts, raised an exception \<open>e\<close> with
  \<open>str(e) = msg\<close>.  \<open>Responds text parsed usage\<close>: the call returned; \<open>text\<close> is
  the text of the response, \<open>parsed\<close> is what \<open>parse_json_response\<close> makes of it
  (\<open>None\<close> when it finds no JSON in the text) and \<open>usage\<close> holds the token counts
  read from the response.  A vendor is the sequence of what the attempts meet, the
  first attempt being number 0.  The sleeps between attempts are not modelled.
\<close>

datatype 'u attempt = Raises string | Responds string pyval 'u

text \<open>Substring test, and \<open>k in x\<close> for a string \<open>k\<close> and an arbitrary object \<open>x\<close>.\<close>

fun is_infix :: "string \<Rightarrow> string \<Rightarrow> bool" where
  "is_infix k [] = (k = [])"
| "is_infix k (c # s) = (take (length k) (c # s) = k \<or> is_infix k s)"

definition py_contains :: "string \<Rightarrow> pyval \<Rightarrow> exn + bool" where
  "py_contains k x =
     (case x of
        PDict d \<Rightarrow> Inr (dict_has d k)
      | PList xs \<Rightarrow> Inr (list_ex (\<lambda>y. py_eq y (PStr k)) xs)
      | PStr s \<Rightarrow> Inr (is_infix k s)
      | _ \<Rightarrow> Inl (Exn ''TypeError''
                 (''argument of type '' @ repr_str (py_type_name x) @ '' is not iterable'')))"

text \<open>The test \<open>parsed and "decision" in parsed\<close> of all three screeners.\<close>

definition has_decision :: "pyval \<Rightarrow> exn + bool" where
  "has_decision parsed = (if py_truthy parsed then py_contains ''decision'' parsed else Inr False)"

subsection \<open>Layer 1 (02_layer1_exclusion.py)\<close>

text \<open>
  The body of the \<open>try\<close> of \<open>screen_record_layer1\<close> in one attempt: it raises
  (\<open>Inl\<close>), returns a result (\<open>Inr (Some result)\<close>) or goes on to the next attempt
  (\<open>Inr None\<close>).  The token counts are the prompt, candidates and total token count.
\<close>

definition l1_default :: "pyval \<Rightarrow> pyval \<Rightarrow> pyval \<Rightarrow> pydict" where
  "l1_default reasoning error raw_response =
     [(''decision'', PStr ''pass''),
      (''exclusion_tags'', PList []),
      (''evidence'', PNone),
      (''reasoning'', reasoning),
      (''error'', error),
      (''raw_response'', raw_response)]"

definition l1_try :: "(int \<times> int \<times> int) attempt \<Rightarrow> nat \<Rightarrow> int \<Rightarrow> exn + pydict option" where
  "l1_try a attempt max_retries =
     (case a of
        Raises msg \<Rightarrow> Inl (Exn ''Exception'' msg)
      | Responds response_text parsed usage \<Rightarrow>
          (case usage of (input_tokens, output_tokens, total_tokens) \<Rightarrow>
             exn_bind (has_decision parsed) (\<lambda>ok.
               if ok then
                 exn_bind (py_get parsed ''decision'' (PStr ''pass'')) (\<lambda>decision.
                 exn_bind (py_get parsed ''exclusion_tags'' (PList [])) (\<lambda>exclusion_tags.
                 exn_bind (py_get parsed ''evidence'' PNone) (\<lambda>evidence.
                 exn_bind (py_get parsed ''reasoning'' PNone) (\<lambda>reasoning.
                   Inr (Some [(''decision'', decision),
                              (''exclusion_tags'', exclusion_tags),
                              (''evidence'', evidence),
                              (''reasoning'', reasoning),
                              (''error'', PNone),
                              (''raw_response'', PStr (take 500 response_text)),
                              (''input_tokens'', PInt input_tokens),
                              (''output_tokens'', PInt output_tokens),
                              (''total_tokens'', PInt total_tokens)])))))
               else if int attempt < max_retries - 1 then Inr None
               else Inr (Some (l1_default (PStr ''JSON parsing failed'')
                                 (PStr (''Invalid JSON: '' @ take 200 response_text))
                                 (PStr (take 500 response_text)))))))"

text \<open>
  The loop \<open>for attempt in range(max_retries)\<close> over the attempts that remain.  It
  gives the result returned from inside the loop, if any, and the number of vendor
  calls made so far: one per attempt that was started.
\<close>

fun l1_loop ::
  "(nat \<Rightarrow> (int \<times> int \<times> int) attempt) \<Rightarrow> int \<Rightarrow> nat list \<Rightarrow> nat \<Rightarrow> pydict option \<times> nat" where
  "l1_loop model max_retries [] calls = (None, calls)"
| "l1_loop model max_retries (attempt # rest) calls =
     (case l1_try (model attempt) attempt max_retries of
        Inr (Some result) \<Rightarrow> (Some result, Suc calls)
      | Inr None \<Rightarrow> l1_loop model max_retries rest (Suc calls)
      | Inl e \<Rightarrow>
          if int attempt < max_retries - 1 then l1_loop model max_retries rest (Suc calls)
          else (Some (l1_default PNone (PStr (exn_str e)) PNone), Suc calls))"

text \<open>\<open>screen_record_layer1\<close>: the result dictionary and the number of vendor calls.\<close>

definition screen_record_layer1 ::
  "(nat \<Rightarrow> (int \<times> int \<times> int) attempt) \<Rightarrow> int \<Rightarrow> pydict \<times> nat" where
  "screen_record_layer1 model max_retries =
     (case l1_loop model max_retries [0..<nat max_retries] 0 of
        (Some result, calls) \<Rightarrow> (result, calls)
      | (None, calls) \<Rightarrow> (l1_default PNone (PStr ''Max retries exceeded'') PNone, calls))"

subsection \<open>Layer 2 (03_layer2_inclusion.py)\<close>

definition l2_default :: "pyval \<Rightarrow> pyval \<Rightarrow> pydict" where
  "l2_default reasoning error =
     [(''decision'', PStr ''include''),
      (''confidence'', PStr ''low''),
      (''reasoning'', reasoning),
      (''inclusion_check'',
         PDict (map (\<lambda>tag. (tag, PDict [(''status'', PStr ''unclear''), (''evidence'', PNone)]))
                  INCLUSION_TAGS)),
      (''error'', error),
      (''raw_response'', PNone)]"

text \<open>
  The loop of \<open>screen_with_gemini_pro\<close> and of \<open>screen_with_claude\<close>, which differ in
  the body of the \<open>try\<close> only.  After an answer without a usable decision both go on
  to the next attempt, if there is one.
\<close>

fun l2_loop ::
  "('u attempt \<Rightarrow> exn + pydict option) \<Rightarrow> (nat \<Rightarrow> 'u attempt) \<Rightarrow> int \<Rightarrow> nat list \<Rightarrow> nat
     \<Rightarrow> pydict option \<times> nat" where
  "l2_loop try_body model max_retries [] calls = (None, calls)"
| "l2_loop try_body model max_retries (attempt # rest) calls =
     (case try_body (model attempt) of
        Inr (Some result) \<Rightarrow> (Some result, Suc calls)
      | Inr None \<Rightarrow> l2_loop try_body model max_retries rest (Suc calls)
      | Inl e \<Rightarrow>
          if int attempt < max_retries - 1
          then l2_loop try_body model max_retries rest (Suc calls)
          else (Some (l2_default PNone (PStr (exn_str e))), Suc calls))"

definition l2_screen ::
  "('u attempt \<Rightarrow> exn + pydict option) \<Rightarrow> (nat \<Rightarrow> 'u attempt) \<Rightarrow> int \<Rightarrow> pydict \<times> nat" where
  "l2_screen try_body model max_retries =
     (case l2_loop try_body model max_retries [0..<nat max_retries] 0 of
        (Some result, calls) \<Rightarrow> (result, calls)
      | (None, calls) \<Rightarrow> (l2_default (PStr ''Parsing failed'') (PStr ''Max retries''), calls))"

text \<open>Gemini: the token counts are the prompt, candidates and total token count.\<close>

definition gemini_try :: "(int \<times> int \<times> int) attempt \<Rightarrow> exn + pydict option" where
  "gemini_try a =
     (case a of
        Raises msg \<Rightarrow> Inl (Exn ''Exception'' msg)
      | Responds response_text parsed usage \<Rightarrow>
          (case usage of (input_tokens, output_tokens, total_tokens) \<Rightarrow>
             exn_bind (has_decision parsed) (\<lambda>ok.
               if ok then
                 exn_bind (extract_inclusion_result parsed) (\<lambda>result.
                   Inr (Some (dict_set (dict_set (dict_set (dict_set result
                     ''raw_response'' (PStr (take 500 response_text)))
                     ''input_tokens'' (PInt input_tokens))
                     ''output_tokens'' (PInt output_tokens))
                     ''total_tokens'' (PInt total_tokens))))
               else Inr None)))"

definition screen_with_gemini_pro ::
  "(nat \<Rightarrow> (int \<times> int \<times> int) attempt) \<Rightarrow> int \<Rightarrow> pydict \<times> nat" where
  "screen_with_gemini_pro model max_retries = l2_screen gemini_try model max_retries"

text \<open>
  Claude: the usage is the text of the thinking block (empty when there is none) and
  the input and output token counts of the message.
\<close>

definition claude_try :: "(string \<times> int \<times> int) attempt \<Rightarrow> exn + pydict option" where
  "claude_try a =
     (case a of
        Raises msg \<Rightarrow> Inl (Exn ''Exception'' msg)
      | Responds response_text parsed usage \<Rightarrow>
          (case usage of (thinking_text, input_tokens, output_tokens) \<Rightarrow>
             exn_bind (has_decision parsed) (\<lambda>ok.
               if ok then
                 exn_bind (extract_inclusion_result parsed) (\<lambda>result.
                   Inr (Some (dict_set (dict_set (dict_set (dict_set (dict_set result
                     ''raw_response'' (PStr (take 500 response_text)))
                     ''thinking'' (PStr (if thinking_text \<noteq> [] then take 1000 thinking_text else [])))
                     ''input_tokens'' (PInt input_tokens))
                     ''output_tokens'' (PInt output_tokens))
                     ''total_tokens'' (PInt (input_tokens + output_tokens)))))
               else Inr None)))"

definition screen_with_claude ::
  "(nat \<Rightarrow> (string \<times> int \<times> int) attempt) \<Rightarrow> int \<Rightarrow> pydict \<times> nat" where
  "screen_with_claude client max_retries = l2_screen claude_try client max_retries"

section \<open>Dataframes\<close>

text \<open>
  A pandas dataframe as the pipeline uses it: the list of its column names and the
  list of its rows, each row a dictionary from the column names to the cells; row
  \<open>i\<close> has the index label \<open>i\<close>, as after \<open>read_csv\<close>.  A cell that is empty in the
  CSV file is read as \<open>nan\<close>.  Writing a dataframe to a CSV file and reading it back
  is taken to give the same cells; what pandas makes of a cell that is itself a list
  or a dictionary is not modelled.
\<close>

datatype dataframe = DataFrame (df_columns: "string list") (df_rows: "pydict list")

definition is_null :: "pyval \<Rightarrow> bool" where
  "is_null v = (v = PNone \<or> v = PNaN)"

text \<open>\<open>df[col] = v\<close> for a scalar \<open>v\<close>: the column is set in every row.\<close>

definition df_set_column :: "dataframe \<Rightarrow> string \<Rightarrow> pyval \<Rightarrow> dataframe" where
  "df_set_column df col v =
     DataFrame (if col \<in> set (df_columns df) then df_columns df else df_columns df @ [col])
               (map (\<lambda>row. dict_set row col v) (df_rows df))"

text \<open>
  \<open>df.at[idx, col] = v\<close>: a column that is not there yet is added with \<open>nan\<close> in
  every row first.  The code reaches the assignment for rows that exist only; for
  another index the dataframe is returned as it is.
\<close>

definition df_at_set :: "dataframe \<Rightarrow> nat \<Rightarrow> string \<Rightarrow> pyval \<Rightarrow> dataframe" where
  "df_at_set df idx col v =
     (let df' = (if col \<in> set (df_columns df) then df else df_set_column df col PNaN)
      in if idx < length (df_rows df')
         then DataFrame (df_columns df') ((df_rows df')[idx := dict_set (df_rows df' ! idx) col v])
         else df')"

text \<open>\<open>df.iloc[idx]\<close> for an index that is not negative.\<close>

definition df_iloc :: "dataframe \<Rightarrow> nat \<Rightarrow> exn + pydict" where
  "df_iloc df idx =
     (if idx < length (df_rows df) then Inr (df_rows df ! idx)
      else Inl (Exn ''IndexError'' ''single positional indexer is out-of-bounds''))"

text \<open>The index labels of the rows whose cell in \<open>col\<close> equals \<open>v\<close>.\<close>

definition df_indices_where :: "dataframe \<Rightarrow> string \<Rightarrow> pyval \<Rightarrow> nat list" where
  "df_indices_where df col v =
     filter (\<lambda>i. py_eq (dict_get (df_rows df ! i) col PNaN) v) [0..<length (df_rows df)]"

text \<open>\<open>df[col].notna().sum()\<close>.\<close>

definition df_count_notna :: "dataframe \<Rightarrow> string \<Rightarrow> nat" where
  "df_count_notna df col =
     length (filter (\<lambda>row. \<not> is_null (dict_get row col PNaN)) (df_rows df))"

section \<open>Batch processing\<close>

text \<open>
  What a run of a stage has done so far: the dataframe in memory, the contents written
  to the output CSV file (every \<open>df.to_csv(output_csv)\<close>, the oldest first, so that the
  last one is the file the run leaves), the rows submitted to the vendor, in order, and
  the exception that ended the run, if one did.  The progress output, the counters that
  are only printed and the summary printed after the final save are not modelled.
\<close>

record run_state =
  st_df :: dataframe
  st_saved :: "dataframe list"
  st_submitted :: "nat list"
  st_raised :: "exn option"

definition save :: "run_state \<Rightarrow> run_state" where
  "save st = st\<lparr>st_saved := st_saved st @ [st_df st]\<rparr>"

text \<open>The columns a stage adds when the dataframe does not have them: \<open>df[col] = None\<close>.\<close>

definition init_columns :: "dataframe \<Rightarrow> string list \<Rightarrow> dataframe" where
  "init_columns df cols =
     foldl (\<lambda>d col. if col \<in> set (df_columns d) then d else df_set_column d col PNone) df cols"

text \<open>\<open>range(start, stop, step)\<close> for a positive step, and the slice \<open>xs[start:]\<close>.\<close>

definition py_range :: "nat \<Rightarrow> nat \<Rightarrow> nat \<Rightarrow> nat list" where
  "py_range start stop step =
     map (\<lambda>k. start + k * step) [0..<(stop - start + step - 1) div step]"

definition py_slice_from :: "int \<Rightarrow> 'a list \<Rightarrow> 'a list" where
  "py_slice_from start xs =
     (if start < 0 then drop (nat (int (length xs) + start)) xs else drop (nat start) xs)"

subsection \<open>Layer 1: \<open>process_screening\<close> (02_layer1_exclusion.py)\<close>

text \<open>\<open>s.strip()\<close> on ASCII text.\<close>

definition is_space :: "char \<Rightarrow> bool" where
  "is_space c =
     (c \<in> set [CHR '' '', CHR 0x09, CHR 0x0A, CHR 0x0B, CHR 0x0C, CHR 0x0D,
                CHR 0x1C, CHR 0x1D, CHR 0x1E, CHR 0x1F])"

definition strip :: "string \<Rightarrow> string" where
  "strip s = rev (dropWhile is_space (rev (dropWhile is_space s)))"

text \<open>\<open>sep.join(x)\<close> for an arbitrary object \<open>x\<close>: every item must be a string.\<close>

fun str_items :: "pyval list \<Rightarrow> nat \<Rightarrow> exn + string list" where
  "str_items [] i = Inr []"
| "str_items (x # xs) i =
     (case x of
        PStr s \<Rightarrow> exn_bind (str_items xs (Suc i)) (\<lambda>rest. Inr (s # rest))
      | _ \<Rightarrow> Inl (Exn ''TypeError''
                 (''sequence item '' @ string_of_nat i @ '': expected str instance, ''
                  @ py_type_name x @ '' found'')))"

definition py_join :: "string \<Rightarrow> pyval \<Rightarrow> exn + string" where
  "py_join sep x =
     (case x of
        PList xs \<Rightarrow> exn_bind (str_items xs 0) (\<lambda>items. Inr (join sep items))
      | PStr s \<Rightarrow> Inr (join sep (map (\<lambda>c. [c]) s))
      | PDict kvs \<Rightarrow> Inr (join sep (map fst kvs))
      | _ \<Rightarrow> Inl (Exn ''TypeError'' ''can only join an iterable''))"

text \<open>
  Storing the result of one record: the assignments \<open>df.at[idx, col] = value\<close> in the
  order of the code, each with the value it assigns or the exception that computing the
  value raises.  The first exception ends the \<open>try\<close>, with the earlier assignments
  done, and the handler writes \<open>str(e)\<close> into \<open>L1_error\<close>.
\<close>

definition l1_assignments :: "pydict \<Rightarrow> string \<Rightarrow> (string \<times> (exn + pyval)) list" where
  "l1_assignments result now =
     [(''L1_decision'', dict_index result ''decision''),
      (''L1_exclusion_tags'',
         exn_bind (dict_index result ''exclusion_tags'') (\<lambda>tags.
           if py_truthy tags then exn_bind (py_join '','' tags) (\<lambda>s. Inr (PStr s))
           else Inr (PStr []))),
      (''L1_evidence'', dict_index result ''evidence''),
      (''L1_reasoning'', dict_index result ''reasoning''),
      (''L1_error'', dict_index result ''error''),
      (''L1_timestamp'', Inr (PStr now)),
      (''L1_input_tokens'', Inr (dict_get result ''input_tokens'' (PInt 0))),
      (''L1_output_tokens'', Inr (dict_get result ''output_tokens'' (PInt 0))),
      (''L1_total_tokens'', Inr (dict_get result ''total_tokens'' (PInt 0)))]"

fun assign_until_raise ::
  "dataframe \<Rightarrow> nat \<Rightarrow> (string \<times> (exn + pyval)) list \<Rightarrow> dataframe \<times> exn option" where
  "assign_until_raise df idx [] = (df, None)"
| "assign_until_raise df idx ((col, Inr v) # rest) =
     assign_until_raise (df_at_set df idx col v) idx rest"
| "assign_until_raise df idx ((col, Inl e) # rest) = (df, Some e)"

definition l1_store :: "dataframe \<Rightarrow> nat \<Rightarrow> pydict \<Rightarrow> string \<Rightarrow> dataframe" where
  "l1_store df idx result now =
     (case assign_until_raise df idx (l1_assignments result now) of
        (df', None) \<Rightarrow> df'
      | (df', Some e) \<Rightarrow> df_at_set df' idx ''L1_error'' (PStr (exn_str e)))"

text \<open>
  The first loop over a batch: a row whose title is blank is settled at once, any other
  row is submitted to \<open>screen_record_layer1\<close>.  \<open>futures\<close> are the rows submitted in
  this batch.  The abstract and the record id only go into the prompt and the token
  log; the vendor is given as what it answers for each row, attempt by attempt.
\<close>

fun l1_submit :: "run_state \<Rightarrow> (nat \<Rightarrow> string) \<Rightarrow> nat list \<Rightarrow> nat list \<Rightarrow> run_state \<times> nat list" where
  "l1_submit st now [] futures = (st, futures)"
| "l1_submit st now (idx # rest) futures =
     (case df_iloc (st_df st) idx of
        Inl e \<Rightarrow> (st\<lparr>st_raised := Some e\<rparr>, futures)
      | Inr row \<Rightarrow>
          let title = py_str (dict_get row ''title'' (PStr []))
          in if strip title = [] then
               l1_submit
                 (st\<lparr>st_df :=
                    df_at_set (df_at_set (df_at_set (st_df st)
                      idx ''L1_decision'' (PStr ''pass''))
                      idx ''L1_reasoning'' (PStr ''No title available''))
                      idx ''L1_timestamp'' (PStr (now idx))\<rparr>)
                 now rest futures
             else
               l1_submit (st\<lparr>st_submitted := st_submitted st @ [idx]\<rparr>) now rest
                 (futures @ [idx]))"

text \<open>The second loop: the results are stored in the order of submission.\<close>

definition l1_collect ::
  "run_state \<Rightarrow> (nat \<Rightarrow> nat \<Rightarrow> (int \<times> int \<times> int) attempt) \<Rightarrow> (nat \<Rightarrow> string) \<Rightarrow> nat list \<Rightarrow> run_state" where
  "l1_collect st model now futures =
     st\<lparr>st_df :=
        foldl (\<lambda>df idx. l1_store df idx (fst (screen_record_layer1 (model idx) 3)) (now idx))
          (st_df st) futures\<rparr>"

text \<open>
  The batches \<open>for batch_start in range(start_idx, total_records, batch_size)\<close>, with
  a save after each.  An exception that is not a \<open>KeyboardInterrupt\<close> ends the run
  without a save.
\<close>

fun l1_batches ::
  "run_state \<Rightarrow> (nat \<Rightarrow> nat \<Rightarrow> (int \<times> int \<times> int) attempt) \<Rightarrow> (nat \<Rightarrow> string) \<Rightarrow> nat \<Rightarrow> nat \<Rightarrow> nat list
     \<Rightarrow> run_state" where
  "l1_batches st model now total_records batch_size [] = st"
| "l1_batches st model now total_records batch_size (batch_start # rest) =
     (let batch_end = min (batch_start + batch_size) total_records;
          (st1, futures) = l1_submit st now [batch_start..<batch_end] []
      in if st_raised st1 \<noteq> None then st1
         else l1_batches (save (l1_collect st1 model now futures)) model now
                total_records batch_size rest)"

definition l1_new_columns :: "string list" where
  "l1_new_columns =
     [''L1_decision'', ''L1_exclusion_tags'', ''L1_evidence'', ''L1_reasoning'',
      ''L1_error'', ''L1_timestamp'', ''L1_input_tokens'', ''L1_output_tokens'',
      ''L1_total_tokens'']"

text \<open>
  \<open>process_screening\<close>.  \<open>input_df\<close> is the input CSV file as read, \<open>existing\<close> the
  output CSV file as read when the file exists, \<open>answer\<close> what the user types at the
  prompt "Resume from last position? (y/n)", \<open>resume_from\<close> the argument of
  \<open>--resume\<close> (a negative one is not modelled).
\<close>

definition process_screening ::
  "dataframe \<Rightarrow> dataframe option \<Rightarrow> string \<Rightarrow> (nat \<Rightarrow> nat \<Rightarrow> (int \<times> int \<times> int) attempt)
     \<Rightarrow> int \<Rightarrow> nat option \<Rightarrow> (nat \<Rightarrow> string) \<Rightarrow> run_state" where
  "process_screening input_df existing answer model batch_size resume_from now =
     (let total_records = length (df_rows input_df);
          df = init_columns input_df l1_new_columns;
          (start_idx, df) =
            (case resume_from of
               Some n \<Rightarrow> (n, df)
             | None \<Rightarrow>
                 (case existing of
                    None \<Rightarrow> (0, df)
                  | Some existing_df \<Rightarrow>
                      if ''L1_decision'' \<in> set (df_columns existing_df) then
                        let processed = df_count_notna existing_df ''L1_decision''
                        in if processed > 0 \<and> lower answer = ''y'' then (processed, existing_df)
                           else (0, df)
                      else (0, df)));
          st = \<lparr>st_df = df, st_saved = [], st_submitted = [], st_raised = None\<rparr>
      in if start_idx > 0 \<and> ''L1_decision'' \<notin> set (df_columns df) then
           st\<lparr>st_raised := Some (Exn ''KeyError'' (repr_str ''L1_decision''))\<rparr>
         else if start_idx > 0 \<and> ''L1_error'' \<notin> set (df_columns df) then
           st\<lparr>st_raised := Some (Exn ''KeyError'' (repr_str ''L1_error''))\<rparr>
         else if batch_size = 0 then
           st\<lparr>st_raised := Some (Exn ''ValueError'' ''range() arg 3 must not be zero'')\<rparr>
         else if batch_size < 0 then
           (if start_idx > total_records
            then st\<lparr>st_raised := Some (Exn ''ValueError'' ''max_workers must be greater than 0'')\<rparr>
            else save st)
         else
           (let st' = l1_batches st model now total_records (nat batch_size)
                        (py_range start_idx total_records (nat batch_size))
            in if st_raised st' \<noteq> None then st' else save st'))"

subsection \<open>Layer 2: \<open>process_layer2\<close> (03_layer2_inclusion.py)\<close>

definition l2_model_columns :: "string \<Rightarrow> string list" where
  "l2_model_columns prefix =
     map (\<lambda>s. prefix @ s)
       [''_decision'', ''_confidence'', ''_reasoning'', ''_error'',
        ''_inc1_status'', ''_inc1_evidence'', ''_inc2_status'', ''_inc2_evidence'',
        ''_inc3_status'', ''_inc3_evidence'', ''_inc4_status'', ''_inc4_evidence'',
        ''_inc5_status'', ''_inc5_evidence'']"

definition l2_new_columns :: "string list" where
  "l2_new_columns =
     l2_model_columns ''L2_pro'' @ l2_model_columns ''L2_sonnet''
     @ [''L2_models_agree'', ''needs_human_review'', ''L2_timestamp'']"

text \<open>\<open>for key, value in flat.items(): df.at[idx, key] = value\<close>.\<close>

definition df_at_set_items :: "dataframe \<Rightarrow> nat \<Rightarrow> pydict \<Rightarrow> dataframe" where
  "df_at_set_items df idx flat = foldl (\<lambda>d kv. df_at_set d idx (fst kv) (snd kv)) df flat"

text \<open>
  What the main thread does with the two results of one record: flatten and store them,
  then the agreement check and the flag for human review.  An exception here is not
  caught by \<open>process_layer2\<close>.
\<close>

definition l2_store :: "dataframe \<Rightarrow> nat \<Rightarrow> pydict \<Rightarrow> pydict \<Rightarrow> string \<Rightarrow> exn + dataframe" where
  "l2_store df idx pro_result sonnet_result now =
     exn_bind (flatten_result pro_result ''L2_pro'') (\<lambda>pro_flat.
     exn_bind (flatten_result sonnet_result ''L2_sonnet'') (\<lambda>sonnet_flat.
     exn_bind (dict_index pro_result ''decision'') (\<lambda>pro_decision.
     exn_bind (dict_index sonnet_result ''decision'') (\<lambda>sonnet_decision.
       let df = df_at_set_items df idx pro_flat;
           df = df_at_set_items df idx sonnet_flat;
           models_agree = py_eq pro_decision sonnet_decision;
           df = df_at_set df idx ''L2_models_agree'' (PBool models_agree);
           needs_review = (\<not> models_agree \<or> py_eq pro_decision (PStr ''include'')
                           \<or> py_eq sonnet_decision (PStr ''include''));
           df = df_at_set df idx ''needs_human_review'' (PBool needs_review)
       in Inr (df_at_set df idx ''L2_timestamp'' (PStr now))))))"

text \<open>
  One batch: every row of the batch is submitted to both judges (with the default of
  three attempts each) and its results are stored.  The results arrive in the order the
  workers finish; each is stored in the row of its own record only, and the batch is
  taken here in the order of its indices.
\<close>

fun l2_batch ::
  "run_state \<Rightarrow> (nat \<Rightarrow> nat \<Rightarrow> (int \<times> int \<times> int) attempt)
     \<Rightarrow> (nat \<Rightarrow> nat \<Rightarrow> (string \<times> int \<times> int) attempt) \<Rightarrow> (nat \<Rightarrow> string) \<Rightarrow> nat list \<Rightarrow> run_state" where
  "l2_batch st gemini_model anthropic_client now [] = st"
| "l2_batch st gemini_model anthropic_client now (idx # rest) =
     (let pro_result = fst (screen_with_gemini_pro (gemini_model idx) 3);
          sonnet_result = fst (screen_with_claude (anthropic_client idx) 3);
          st = st\<lparr>st_submitted := st_submitted st @ [idx]\<rparr>
      in case l2_store (st_df st) idx pro_result sonnet_result (now idx) of
           Inl e \<Rightarrow> st\<lparr>st_raised := Some e\<rparr>
         | Inr df \<Rightarrow> l2_batch (st\<lparr>st_df := df\<rparr>) gemini_model anthropic_client now rest)"

text \<open>\<open>for batch_num in range(num_batches)\<close>, with a save after each batch.\<close>

fun l2_batches ::
  "run_state \<Rightarrow> (nat \<Rightarrow> nat \<Rightarrow> (int \<times> int \<times> int) attempt)
     \<Rightarrow> (nat \<Rightarrow> nat \<Rightarrow> (string \<times> int \<times> int) attempt) \<Rightarrow> (nat \<Rightarrow> string) \<Rightarrow> nat list \<Rightarrow> nat
     \<Rightarrow> nat list \<Rightarrow> run_state" where
  "l2_batches st gemini_model anthropic_client now indices_to_process batch_parallel_size [] = st"
| "l2_batches st gemini_model anthropic_client now indices_to_process batch_parallel_size
     (batch_num # rest) =
     (let batch_start = batch_num * batch_parallel_size;
          batch_end = min (batch_start + batch_parallel_size) (length indices_to_process);
          batch_indices = take (batch_end - batch_start) (drop batch_start indices_to_process);
          st1 = l2_batch st gemini_model anthropic_client now batch_indices
      in if st_raised st1 \<noteq> None then st1
         else l2_batches (save st1) gemini_model anthropic_client now indices_to_process
                batch_parallel_size rest)"

text \<open>
  \<open>process_layer2\<close>.  \<open>input_df\<close> is the Layer 1 output file as read.  A batch size
  that is not positive either divides by zero, or gives no batch at all, or is refused
  by the thread pool of the first batch.
\<close>

definition process_layer2 ::
  "dataframe \<Rightarrow> (nat \<Rightarrow> nat \<Rightarrow> (int \<times> int \<times> int) attempt)
     \<Rightarrow> (nat \<Rightarrow> nat \<Rightarrow> (string \<times> int \<times> int) attempt) \<Rightarrow> int \<Rightarrow> int option \<Rightarrow> (nat \<Rightarrow> string)
     \<Rightarrow> run_state" where
  "process_layer2 input_df gemini_model anthropic_client batch_parallel_size resume_from now =
     (let st = \<lparr>st_df = input_df, st_saved = [], st_submitted = [], st_raised = None\<rparr>
      in if ''L1_decision'' \<notin> set (df_columns input_df) then
           st\<lparr>st_raised := Some (Exn ''SystemExit'' ''1'')\<rparr>
         else
           let pass_indices = df_indices_where input_df ''L1_decision'' (PStr ''pass'');
               st = st\<lparr>st_df := init_columns input_df l2_new_columns\<rparr>;
               start_idx = (case resume_from of Some n \<Rightarrow> n | None \<Rightarrow> 0);
               indices_to_process = py_slice_from start_idx pass_indices
           in if batch_parallel_size = 0 then
                st\<lparr>st_raised := Some (Exn ''ZeroDivisionError'' ''integer division or modulo by zero'')\<rparr>
              else
                let num_batches =
                      (int (length indices_to_process) + batch_parallel_size - 1) div batch_parallel_size
                in if num_batches \<le> 0 then save st
                   else if batch_parallel_size < 0 then
                     st\<lparr>st_raised := Some (Exn ''ValueError'' ''max_workers must be greater than 0'')\<rparr>
                   else
                     let st' = l2_batches st gemini_model anthropic_client now indices_to_process
                                 (nat batch_parallel_size) [0..<nat num_batches]
                     in if st_raised st' \<noteq> None then st' else save st')"

section \<open>Shapes of parsed answers and of results\<close>

text \<open>
  The notions the properties below are stated with.  A parsed answer has a usable
  inclusion check when its \<open>inclusion_check\<close> entry is absent or a dictionary and
  each of the five tags in it is absent or a dictionary; \<open>tag_status\<close> and
  \<open>tag_evidence\<close> read one tag of such a check, with the defaults of the code
  (\<open>'unclear'\<close> and \<open>None\<close>).
\<close>

fun is_dict :: "pyval \<Rightarrow> bool" where
  "is_dict (PDict d) = True"
| "is_dict _ = False"

fun dict_of :: "pyval \<Rightarrow> pydict" where
  "dict_of (PDict d) = d"
| "dict_of _ = []"

definition tag_status :: "pyval \<Rightarrow> string \<Rightarrow> pyval" where
  "tag_status inc_check tag =
     dict_get (dict_of (dict_get (dict_of inc_check) tag (PDict []))) ''status'' (PStr ''unclear'')"

definition tag_evidence :: "pyval \<Rightarrow> string \<Rightarrow> pyval" where
  "tag_evidence inc_check tag =
     dict_get (dict_of (dict_get (dict_of inc_check) tag (PDict []))) ''evidence'' PNone"

definition tag_check :: "pyval \<Rightarrow> string \<Rightarrow> string \<times> pyval" where
  "tag_check inc_check tag =
     (tag, PDict [(''status'', tag_status inc_check tag), (''evidence'', tag_evidence inc_check tag)])"

definition tags_ok :: "pyval \<Rightarrow> string list \<Rightarrow> bool" where
  "tags_ok inc_check tags =
     (is_dict inc_check \<and> list_all (\<lambda>tag. is_dict (dict_get (dict_of inc_check) tag (PDict []))) tags)"

definition inclusion_shape_ok :: "pydict \<Rightarrow> bool" where
  "inclusion_shape_ok parsed =
     tags_ok (dict_get parsed ''inclusion_check'' (PDict []))
       [''INC-1'', ''INC-2'', ''INC-3'', ''INC-4'', ''INC-5'']"

text \<open>A result dictionary that \<open>flatten_result\<close> can read.\<close>

definition result_ok :: "pydict \<Rightarrow> bool" where
  "result_ok result =
     (dict_has result ''decision'' \<and> dict_has result ''confidence'' \<and>
      dict_has result ''reasoning'' \<and> dict_has result ''inclusion_check'' \<and>
      tags_ok (dict_get result ''inclusion_check'' PNone)
        [''INC-1'', ''INC-2'', ''INC-3'', ''INC-4'', ''INC-5''])"







section \<open>Properties of the merge stage\<close>

text \<open>
  C5.  A row whose \<open>L1_decision\<close> cell equals \<open>'exclude'\<close> gets \<open>auto_decision\<close>
  \<open>'exclude'\<close> and \<open>review_priority\<close> \<open>'none'\<close> (and no review reason), whatever
  its other columns hold, the Layer 2 columns among them.
\<close>

theorem determine_final_decision_l1_exclude:
  assumes "py_eq (dict_get row ''L1_decision'' PNone) (PStr ''exclude'')"
  shows "determine_final_decision row =
           [(''auto_decision'', PStr ''exclude''),
            (''review_priority'', PStr ''none''),
            (''review_reason'', PNone)]"
  using assms by (simp add: determine_final_decision_def)

theorem determine_final_decision_l1_exclude_witness:
  "py_eq (dict_get [(''title'', PStr ''A trial''), (''L1_decision'', PStr ''exclude''),
                    (''L2_pro_decision'', PStr ''include''),
                    (''L2_opus_decision'', PStr ''include'')] ''L1_decision'' PNone)
         (PStr ''exclude'')
   \<and> dict_get (determine_final_decision
         [(''title'', PStr ''A trial''), (''L1_decision'', PStr ''exclude''),
          (''L2_pro_decision'', PStr ''include''),
          (''L2_opus_decision'', PStr ''include'')]) ''auto_decision'' PNone = PStr ''exclude''
   \<and> dict_get (determine_final_decision
         [(''title'', PStr ''A trial''), (''L1_decision'', PStr ''exclude''),
          (''L2_pro_decision'', PStr ''include''),
          (''L2_opus_decision'', PStr ''include'')]) ''review_priority'' PNone = PStr ''none''"
proof -
  let ?row = "[(''title'', PStr ''A trial''), (''L1_decision'', PStr ''exclude''),
               (''L2_pro_decision'', PStr ''include''),
               (''L2_opus_decision'', PStr ''include'')]"
  have h: "py_eq (dict_get ?row ''L1_decision'' PNone) (PStr ''exclude'')"
    by (simp add: dict_get_def)
  from determine_final_decision_l1_exclude [OF h] h show ?thesis
    by (simp add: dict_get_def)
qed

section \<open>Basic facts about dictionaries and dataframes\<close>

lemma map_of_dict_set: "map_of (dict_set d k v) k' = (if k' = k then Some v else map_of d k')"
  by (induction d) auto

lemma dict_has_dict_set: "dict_has (dict_set d k v) k' = (k' = k \<or> dict_has d k')"
  by (simp add: dict_has_def map_of_dict_set)

lemma dict_get_dict_set: "dict_get (dict_set d k v) k' dflt = (if k' = k then v else dict_get d k' dflt)"
  by (simp add: dict_get_def map_of_dict_set)




section \<open>Properties of \<open>extract_inclusion_result\<close> and \<open>flatten_result\<close>\<close>

lemma py_get_dict: "is_dict x \<Longrightarrow> py_get x k dflt = Inr (dict_get (dict_of x) k dflt)"
  by (cases x) (simp_all add: py_get_def)

lemma py_get_not_dict: "\<not> is_dict x \<Longrightarrow> \<exists>e. py_get x k dflt = Inl e"
  by (cases x) (simp_all add: py_get_def)

lemma extract_tags_ok:
  "tags_ok inc_check tags \<Longrightarrow>
   extract_tags inc_check tags checks =
     Inr (foldl (\<lambda>acc tag. dict_set acc tag
            (PDict [(''status'', tag_status inc_check tag),
                    (''evidence'', tag_evidence inc_check tag)])) checks tags)"
proof (induction tags arbitrary: checks)
  case Nil
  show ?case by simp
next
  case (Cons tag tags)
  from Cons.prems have d: "is_dict inc_check"
    and t: "is_dict (dict_get (dict_of inc_check) tag (PDict []))"
    and rest: "tags_ok inc_check tags"
    by (simp_all add: tags_ok_def)
  show ?case
    by (simp add: exn_bind_def py_get_dict d t Cons.IH [OF rest] tag_status_def tag_evidence_def)
qed

lemma extract_tags_raises:
  "\<not> tags_ok inc_check tags \<Longrightarrow> tags \<noteq> [] \<Longrightarrow>
   \<exists>e. extract_tags inc_check tags checks = Inl e"
proof (induction tags arbitrary: checks)
  case Nil
  then show ?case by simp
next
  case (Cons tag tags)
  show ?case
  proof (cases "is_dict inc_check")
    case False
    from py_get_not_dict [OF False] obtain e where "py_get inc_check tag (PDict []) = Inl e"
      by blast
    then show ?thesis by (simp add: exn_bind_def)
  next
    case True
    note d = this
    show ?thesis
    proof (cases "is_dict (dict_get (dict_of inc_check) tag (PDict []))")
      case False
      from py_get_not_dict [OF False] obtain e where
        "py_get (dict_get (dict_of inc_check) tag (PDict [])) ''status'' (PStr ''unclear'') = Inl e"
        by blast
      then show ?thesis by (simp add: exn_bind_def py_get_dict d)
    next
      case True
      with Cons.prems d have rest: "\<not> tags_ok inc_check tags" and ne: "tags \<noteq> []"
        by (auto simp: tags_ok_def)
      from Cons.IH [OF rest ne] show ?thesis
        by (simp add: exn_bind_def py_get_dict d True)
    qed
  qed
qed





lemma extract_inclusion_result_ok:
  assumes "inclusion_shape_ok parsed"
  shows "extract_inclusion_result (PDict parsed) =
     Inr [(''decision'', dict_get parsed ''decision'' (PStr ''include'')),
          (''confidence'', dict_get parsed ''confidence'' (PStr ''low'')),
          (''reasoning'', dict_get parsed ''reasoning'' PNone),
          (''inclusion_check'',
             PDict (map (tag_check (dict_get parsed ''inclusion_check'' (PDict [])))
                      [''INC-1'', ''INC-2'', ''INC-3'', ''INC-4'', ''INC-5''])),
          (''error'', PNone)]"
  using assms
  by (simp add: extract_inclusion_result_def inclusion_shape_ok_def exn_bind_def py_get_def
      extract_tags_ok tag_check_def del: extract_tags.simps)

lemma extract_inclusion_result_raises:
  assumes "\<not> inclusion_shape_ok parsed"
  shows "\<exists>e. extract_inclusion_result (PDict parsed) = Inl e"
proof -
  from assms extract_tags_raises obtain e where
    "extract_tags (dict_get parsed ''inclusion_check'' (PDict []))
       [''INC-1'', ''INC-2'', ''INC-3'', ''INC-4'', ''INC-5''] [] = Inl e"
    unfolding inclusion_shape_ok_def by blast
  then show ?thesis
    by (simp add: extract_inclusion_result_def exn_bind_def py_get_def del: extract_tags.simps)
qed

lemma extract_inclusion_result_not_dict:
  assumes "\<not> is_dict parsed"
  shows "\<exists>e. extract_inclusion_result parsed = Inl e"
proof -
  from py_get_not_dict [OF assms] obtain e where "py_get parsed ''decision'' (PStr ''include'') = Inl e"
    by blast
  then show ?thesis by (simp add: extract_inclusion_result_def exn_bind_def)
qed

lemma extracted_result_ok:
  assumes "inclusion_shape_ok parsed" and "extract_inclusion_result (PDict parsed) = Inr result"
  shows "result_ok result"
  using assms(2) unfolding extract_inclusion_result_ok [OF assms(1)]
  by (auto simp: result_ok_def dict_has_def dict_get_def tags_ok_def tag_check_def)

text \<open>
  \<open>extract_inclusion_result\<close> returns exactly on the dictionaries with a usable inclusion
  check; on every other value it raises.
\<close>

lemma extract_inclusion_result_returns_iff:
  "(\<exists>result. extract_inclusion_result (PDict parsed) = Inr result) \<longleftrightarrow> inclusion_shape_ok parsed"
proof
  assume "\<exists>result. extract_inclusion_result (PDict parsed) = Inr result"
  then show "inclusion_shape_ok parsed"
    by (rule contrapos_pp) (auto dest: extract_inclusion_result_raises)
next
  assume "inclusion_shape_ok parsed"
  then show "\<exists>result. extract_inclusion_result (PDict parsed) = Inr result"
    by (simp add: extract_inclusion_result_ok)
qed




section \<open>Properties of the screeners\<close>

lemma l1_loop_calls: "snd (l1_loop model m atts calls) \<le> calls + length atts"
proof (induction atts arbitrary: calls)
  case Nil
  show ?case by simp
next
  case (Cons attempt rest)
  from Cons.IH [of "Suc calls"] show ?case
    by (auto split: sum.splits option.splits)
qed

lemma l2_loop_calls: "snd (l2_loop try_body model m atts calls) \<le> calls + length atts"
proof (induction atts arbitrary: calls)
  case Nil
  show ?case by simp
next
  case (Cons attempt rest)
  from Cons.IH [of "Suc calls"] show ?case
    by (auto split: sum.splits option.splits)
qed

lemma l1_default_keys:
  "dict_has (l1_default r e raw) ''decision''" "dict_has (l1_default r e raw) ''error''"
  by (simp_all add: l1_default_def dict_has_def)

lemma l1_try_keys:
  assumes "l1_try a attempt m = Inr (Some result)"
  shows "dict_has result ''decision'' \<and> dict_has result ''error''"
  using assms
  by (auto simp: l1_try_def exn_bind_def dict_has_def l1_default_def
      split: attempt.splits sum.splits if_splits prod.splits)

lemma l1_loop_keys:
  "l1_loop model m atts calls = (Some result, n) \<Longrightarrow>
   dict_has result ''decision'' \<and> dict_has result ''error''"
proof (induction atts arbitrary: calls)
  case Nil
  then show ?case by simp
next
  case (Cons attempt rest)
  show ?case
  proof (cases "l1_try (model attempt) attempt m")
    case (Inl e)
    with Cons show ?thesis
      by (auto simp: l1_default_keys split: if_splits)
  next
    case (Inr r)
    with Cons show ?thesis
      by (cases r) (auto dest: l1_try_keys)
  qed
qed

lemma tags_ok_default:
  "tags_ok (PDict (map (\<lambda>tag. (tag, PDict [(''status'', PStr ''unclear''), (''evidence'', PNone)]))
                    INCLUSION_TAGS))
     [''INC-1'', ''INC-2'', ''INC-3'', ''INC-4'', ''INC-5'']"
  by (simp add: tags_ok_def INCLUSION_TAGS_def dict_get_def)

lemma l2_default_ok: "result_ok (l2_default r e)"
  using tags_ok_default
  by (simp add: result_ok_def l2_default_def dict_has_def dict_get_def)

lemma l2_default_keys:
  "dict_has (l2_default r e) ''decision''" "dict_has (l2_default r e) ''error''"
  by (simp_all add: l2_default_def dict_has_def)

lemma result_ok_dict_set:
  assumes "result_ok result"
    and "k \<notin> {''decision'', ''confidence'', ''reasoning'', ''inclusion_check''}"
  shows "result_ok (dict_set result k v)"
  using assms by (auto simp: result_ok_def dict_has_dict_set dict_get_dict_set)

lemma extract_result_ok:
  assumes "extract_inclusion_result parsed = Inr result"
  shows "result_ok result \<and> dict_has result ''error''"
proof (cases parsed)
  case (PDict d)
  with assms extract_inclusion_result_raises [of d] have ok: "inclusion_shape_ok d"
    by (cases "inclusion_shape_ok d") auto
  from extracted_result_ok [OF ok] assms PDict have "result_ok result" by simp
  moreover from assms PDict extract_inclusion_result_ok [OF ok] have "dict_has result ''error''"
    by (auto simp: dict_has_def)
  ultimately show ?thesis ..
qed (use assms extract_inclusion_result_not_dict [of parsed] in auto)

lemma gemini_try_ok:
  assumes "gemini_try a = Inr (Some result)"
  shows "result_ok result \<and> dict_has result ''error''"
proof -
  from assms obtain rtext parsed i o' t r where
    "extract_inclusion_result parsed = Inr r"
    and res: "result = dict_set (dict_set (dict_set (dict_set r
                     ''raw_response'' (PStr (take 500 rtext)))
                     ''input_tokens'' (PInt i))
                     ''output_tokens'' (PInt o'))
                     ''total_tokens'' (PInt t)"
    by (auto simp: gemini_try_def exn_bind_def
        split: attempt.splits sum.splits if_splits prod.splits)
  then have "result_ok r" "dict_has r ''error''"
    using extract_result_ok by blast+
  then show ?thesis
    unfolding res by (simp add: result_ok_dict_set dict_has_dict_set)
qed

lemma claude_try_ok:
  assumes "claude_try a = Inr (Some result)"
  shows "result_ok result \<and> dict_has result ''error''"
proof -
  from assms obtain rtext parsed thv i o' r where
    "extract_inclusion_result parsed = Inr r"
    and res: "result = dict_set (dict_set (dict_set (dict_set (dict_set r
                     ''raw_response'' (PStr (take 500 rtext)))
                     ''thinking'' thv)
                     ''input_tokens'' (PInt i))
                     ''output_tokens'' (PInt o'))
                     ''total_tokens'' (PInt (i + o'))"
    by (auto simp: claude_try_def exn_bind_def
        split: attempt.splits sum.splits if_splits prod.splits)
  then have "result_ok r" "dict_has r ''error''"
    using extract_result_ok by blast+
  then show ?thesis
    unfolding res by (simp add: result_ok_dict_set dict_has_dict_set)
qed

lemma l2_loop_ok:
  assumes "\<And>a result. try_body a = Inr (Some result) \<Longrightarrow> result_ok result \<and> dict_has result ''error''"
    and "l2_loop try_body model m atts calls = (Some result, n)"
  shows "result_ok result \<and> dict_has result ''error''"
  using assms(2)
proof (induction atts arbitrary: calls)
  case Nil
  then show ?case by simp
next
  case (Cons attempt rest)
  show ?case
  proof (cases "try_body (model attempt)")
    case (Inl e)
    with Cons show ?thesis
      by (auto simp: l2_default_ok l2_default_keys split: if_splits)
  next
    case (Inr r)
    with Cons assms(1) show ?thesis
      by (cases r) auto
  qed
qed

lemma l2_screen_ok:
  assumes "\<And>a result. try_body a = Inr (Some result) \<Longrightarrow> result_ok result \<and> dict_has result ''error''"
  shows "result_ok (fst (l2_screen try_body model m)) \<and> dict_has (fst (l2_screen try_body model m)) ''error''"
proof (cases "l2_loop try_body model m [0..<nat m] 0")
  case (Pair r n)
  show ?thesis
  proof (cases r)
    case None
    with Pair show ?thesis
      by (simp add: l2_screen_def l2_default_ok l2_default_keys)
  next
    case (Some result)
    with Pair l2_loop_ok [of try_body model m "[0..<nat m]" 0 result n, OF assms] show ?thesis
      by (simp add: l2_screen_def)
  qed
qed

lemma l2_screen_calls: "snd (l2_screen try_body model m) \<le> nat m"
  using l2_loop_calls [of try_body model m "[0..<nat m]" 0]
  by (auto simp: l2_screen_def split: prod.splits option.splits)

lemma screen_record_layer1_calls: "snd (screen_record_layer1 model m) \<le> nat m"
  using l1_loop_calls [of model m "[0..<nat m]" 0]
  by (auto simp: screen_record_layer1_def split: prod.splits option.splits)

lemma screen_record_layer1_keys:
  "dict_has (fst (screen_record_layer1 model m)) ''decision'' \<and>
   dict_has (fst (screen_record_layer1 model m)) ''error''"
proof (cases "l1_loop model m [0..<nat m] 0")
  case (Pair r n)
  show ?thesis
  proof (cases r)
    case None
    with Pair show ?thesis
      by (simp add: screen_record_layer1_def l1_default_keys)
  next
    case (Some result)
    with Pair l1_loop_keys [of model m "[0..<nat m]" 0 result n] show ?thesis
      by (simp add: screen_record_layer1_def)
  qed
qed

lemma result_ok_decision: "result_ok result \<Longrightarrow> dict_has result ''decision''"
  by (simp add: result_ok_def)











section \<open>Properties of storing the results of one record\<close>

section \<open>The screeners never raise and fall back to a default\<close>

lemma upt_0_3: "[0..<3] = [0, 1, 2::nat]"
  by (simp add: upt_rec)

text \<open>
  C3.  Whatever the attempts meet (an answer with a decision, an answer without usable
  JSON, an exception), and for every \<open>max_retries\<close>, each of \<open>screen_record_layer1\<close>,
  \<open>screen_with_gemini_pro\<close> and \<open>screen_with_claude\<close> returns a dictionary; it has
  made at most \<open>max_retries\<close> vendor calls (none when \<open>max_retries\<close> is not positive)
  and the dictionary has the keys \<open>decision\<close> and \<open>error\<close>.  The functions of the
  model are total and return the dictionary itself: every exception raised in an
  attempt is a value of the \<open>try\<close> body that the loop handles.
\<close>

theorem screeners_bounded_and_total:
  "snd (screen_record_layer1 model max_retries) \<le> nat max_retries
   \<and> dict_has (fst (screen_record_layer1 model max_retries)) ''decision''
   \<and> dict_has (fst (screen_record_layer1 model max_retries)) ''error''
   \<and> snd (screen_with_gemini_pro gemini_model max_retries) \<le> nat max_retries
   \<and> dict_has (fst (screen_with_gemini_pro gemini_model max_retries)) ''decision''
   \<and> dict_has (fst (screen_with_gemini_pro gemini_model max_retries)) ''error''
   \<and> snd (screen_with_claude client max_retries) \<le> nat max_retries
   \<and> dict_has (fst (screen_with_claude client max_retries)) ''decision''
   \<and> dict_has (fst (screen_with_claude client max_retries)) ''error''"
  using screen_record_layer1_calls [of model max_retries]
    screen_record_layer1_keys [of model max_retries]
    l2_screen_calls [of gemini_try gemini_model max_retries]
    l2_screen_calls [of claude_try client max_retries]
    l2_screen_ok [of gemini_try gemini_model max_retries, OF gemini_try_ok]
    l2_screen_ok [of claude_try client max_retries, OF claude_try_ok]
  by (simp add: screen_with_gemini_pro_def screen_with_claude_def result_ok_decision)

theorem screeners_bounded_and_total_witness:
  "snd (screen_record_layer1 (\<lambda>k. Raises ''timeout'') 3) = 3
   \<and> snd (screen_record_layer1 (\<lambda>k. Raises ''timeout'') 3) \<le> nat 3
   \<and> dict_has (fst (screen_record_layer1 (\<lambda>k. Raises ''timeout'') 3)) ''decision''
   \<and> dict_has (fst (screen_record_layer1 (\<lambda>k. Raises ''timeout'') 3)) ''error''
   \<and> snd (screen_with_gemini_pro (\<lambda>k. Responds ''no json here'' PNone (0, 0, 0)) 3) \<le> nat 3
   \<and> dict_has (fst (screen_with_gemini_pro (\<lambda>k. Responds ''no json here'' PNone (0, 0, 0)) 3)) ''decision''
   \<and> dict_has (fst (screen_with_gemini_pro (\<lambda>k. Responds ''no json here'' PNone (0, 0, 0)) 3)) ''error''
   \<and> snd (screen_with_claude (\<lambda>k. Raises ''overloaded'') 3) \<le> nat 3
   \<and> dict_has (fst (screen_with_claude (\<lambda>k. Raises ''overloaded'') 3)) ''decision''
   \<and> dict_has (fst (screen_with_claude (\<lambda>k. Raises ''overloaded'') 3)) ''error''"
proof -
  have "snd (screen_record_layer1 (\<lambda>k. Raises ''timeout'') 3) = 3"
    by (simp add: screen_record_layer1_def upt_0_3 l1_try_def)
  with screeners_bounded_and_total
         [of "\<lambda>k. Raises ''timeout''" 3 "\<lambda>k. Responds ''no json here'' PNone (0, 0, 0)"
             "\<lambda>k. Raises ''overloaded''"]
  show ?thesis by simp
qed



section \<open>Agreement of the judges and the flag for human review\<close>








end
